theory Spec2Isabelle
  imports Main
begin

section \<open>JavaScript values\<close>

text \<open>
  The cells of a parsed record and the values that \<^verbatim>\<open>JSON.parse\<close> returns.  Numbers are
  kept as integers: the code modelled here only tests a number for being zero and passes
  it on.
\<close>

datatype jsval =
    JUndefined
  | JNull
  | JBool bool
  | JNum int
  | JStr string
  | JArr "jsval list"
  | JObj "(string \<times> jsval) list"

datatype js_error = SyntaxError | TypeError | LibraryError

text \<open>
  A parsed record is a JavaScript object: its own properties in the order of their
  creation, each name once.
\<close>

type_synonym row = "(string \<times> jsval) list"

text \<open>
  A property name is an array index when it is the decimal numeral, without leading
  zeros, of a number below 4294967295.
\<close>

definition is_digit :: "char \<Rightarrow> bool" where
  "is_digit c \<longleftrightarrow> c \<in> set ''0123456789''"

definition digit_value :: "char \<Rightarrow> nat" where
  "digit_value c = length (takeWhile (\<lambda>d. d \<noteq> c) ''0123456789'')"

definition decimal :: "string \<Rightarrow> nat" where
  "decimal k = fold (\<lambda>c n. 10 * n + digit_value c) k 0"

definition is_array_index :: "string \<Rightarrow> bool" where
  "is_array_index k \<longleftrightarrow>
     k \<noteq> [] \<and> list_all is_digit k
     \<and> (if hd k = CHR ''0'' then k = ''0'' else True)
     \<and> decimal k < 4294967295"

text \<open>
  \<^verbatim>\<open>Object.values(row)\<close>: the values of the properties named by array indices first, in
  ascending numeric order, then those of the other properties in the order of their
  creation.
\<close>

definition object_values :: "row \<Rightarrow> jsval list" where
  "object_values r =
     map snd
       (sort_key (\<lambda>p. decimal (fst p)) (filter (\<lambda>p. is_array_index (fst p)) r)
        @ filter (\<lambda>p. \<not> is_array_index (fst p)) r)"

text \<open>Reading an array at an index: out of range the result is \<^verbatim>\<open>undefined\<close>.\<close>

definition at :: "jsval list \<Rightarrow> nat \<Rightarrow> jsval" where
  "at xs i = (if i < length xs then xs ! i else JUndefined)"

text \<open>The test an \<^verbatim>\<open>if (v)\<close> performs.\<close>

fun truthy :: "jsval \<Rightarrow> bool" where
  "truthy JUndefined = False"
| "truthy JNull = False"
| "truthy (JBool b) = b"
| "truthy (JNum n) = (n \<noteq> 0)"
| "truthy (JStr s) = (s \<noteq> [])"
| "truthy (JArr xs) = True"
| "truthy (JObj ps) = True"

fun isArray :: "jsval \<Rightarrow> bool" where
  "isArray (JArr xs) = True"
| "isArray v = False"

text \<open>
  A property read \<^verbatim>\<open>v.name\<close> for one of the names \<^verbatim>\<open>pageLength\<close>,
  \<^verbatim>\<open>visibleColumns\<close>, \<^verbatim>\<open>sortOrder\<close>: a TypeError on \<^verbatim>\<open>null\<close> and
  \<^verbatim>\<open>undefined\<close>, the property's value on an object that has it, \<^verbatim>\<open>undefined\<close>
  everywhere else.
\<close>

fun get_prop :: "jsval \<Rightarrow> string \<Rightarrow> js_error + jsval" where
  "get_prop JUndefined name = Inl TypeError"
| "get_prop JNull name = Inl TypeError"
| "get_prop (JObj ps) name = Inr (case map_of ps name of None \<Rightarrow> JUndefined | Some v \<Rightarrow> v)"
| "get_prop v name = Inr JUndefined"

section \<open>The DataTable instance\<close>

text \<open>
  DataTables is a library the page loads; the application only constructs an instance and
  calls its methods.  An instance is therefore modelled by what the application gave the
  constructor and by the method calls the application has made on it since, in order.
\<close>

datatype api_call =
    Destroy
  | Draw
  | PageLen jsval
  | ColumnVisible nat jsval
  | Order jsval

record column =
  col_title :: string
  col_data :: "row \<Rightarrow> jsval"

record datatable =
  dt_data :: "row list"
  dt_columns :: "column list"
  dt_pageLength :: nat
  dt_lengthMenu :: "nat list"
  dt_calls :: "api_call list"

text \<open>
  The two versions of the script: \<^verbatim>\<open>src/script.js\<close>, and version 1.1.0 with column
  visibility and stored preferences.
\<close>

datatype version = Basic | Full

text \<open>
  \<^verbatim>\<open>headers.map((header, index) => ({ title: header,
      data: function(row) { return Object.values(row)[index]; } }))\<close>
\<close>

definition columns_of :: "string list \<Rightarrow> column list" where
  "columns_of headers =
     map (\<lambda>(index, header).
            \<lparr>col_title = header, col_data = (\<lambda>row. at (object_values row) index)\<rparr>)
         (enumerate 0 headers)"

definition lengthMenu :: "version \<Rightarrow> nat list" where
  "lengthMenu v =
     (case v of
        Basic \<Rightarrow> [10, 25, 50, 100, 250]
      | Full \<Rightarrow> [10, 25, 50, 100, 250, 1000, 1500, 2000])"

definition new_DataTable :: "version \<Rightarrow> row list \<Rightarrow> string list \<Rightarrow> datatable" where
  "new_DataTable v data headers =
     \<lparr>dt_data = data, dt_columns = columns_of headers, dt_pageLength = 25,
      dt_lengthMenu = lengthMenu v, dt_calls = []\<rparr>"

section \<open>The page and what surrounds it\<close>

text \<open>
  What \<^verbatim>\<open>localStorage.getItem('csvWebappPreferences')\<close> holds: nothing (or the empty
  string), a text on which \<^verbatim>\<open>JSON.parse\<close> throws, or a text that it turns into a value.
\<close>

datatype stored_item = NoItem | Unparseable | Parsed jsval

text \<open>
  The surroundings the script cannot control: the stored preferences, where the library
  throws (a method call on an instance, or the constructor), and whether the page-length
  selector \<^verbatim>\<open>.dataTables_length select\<close> is in the document once the table is built.
\<close>

record env =
  saved :: stored_item
  throws :: "datatable \<Rightarrow> api_call \<Rightarrow> bool"
  init_throws :: "row list \<Rightarrow> string list \<Rightarrow> bool"
  length_select :: bool

text \<open>
  The markup inside \<^verbatim>\<open>#tableContainer\<close>: the one of \<^verbatim>\<open>index.html\<close>, the loading
  indicator, the table card that \<^verbatim>\<open>loadDefaultCSV\<close> writes (with the number of records it
  announces), or an error box.  The element \<^verbatim>\<open>#tableHeader\<close> lives inside the first and
  the third only.
\<close>

datatype container = Original | Loading | TableCard nat | LoadFailure | InitFailure

record app =
  csvData :: "row list"
  dataTable :: "datatable option"
  tableContainer :: "container option"
  headerRow :: "string list"
  alerts :: "string list"

text \<open>What \<^verbatim>\<open>Papa.parse\<close> hands to the \<^verbatim>\<open>complete\<close> callback.\<close>

record results =
  res_errors :: "string list"
  res_data :: "row list"
  res_fields :: "string list"

definition has_tableHeader :: "app \<Rightarrow> bool" where
  "has_tableHeader s =
     (case tableContainer s of
        Some Original \<Rightarrow> True
      | Some (TableCard n) \<Rightarrow> True
      | _ \<Rightarrow> False)"

definition alert :: "string \<Rightarrow> app \<Rightarrow> app" where
  "alert msg s = s\<lparr>alerts := alerts s @ [msg]\<rparr>"

text \<open>\<^verbatim>\<open>tableContainer.innerHTML = ...\<close>: the old content, header row included, is gone.\<close>

definition set_innerHTML :: "container \<Rightarrow> app \<Rightarrow> app" where
  "set_innerHTML c s = s\<lparr>tableContainer := Some c, headerRow := []\<rparr>"

section \<open>Method calls on the instance\<close>

definition call :: "env \<Rightarrow> api_call \<Rightarrow> datatable \<Rightarrow> datatable \<times> js_error option" where
  "call e c dt =
     (dt\<lparr>dt_calls := dt_calls dt @ [c]\<rparr>, if throws e dt c then Some LibraryError else None)"

text \<open>Sequencing: a statement runs only if the one before it did not throw.\<close>

definition and_then ::
  "datatable \<times> js_error option \<Rightarrow> (datatable \<Rightarrow> datatable \<times> js_error option)
     \<Rightarrow> datatable \<times> js_error option" where
  "and_then r f = (case r of (dt, Some err) \<Rightarrow> (dt, Some err) | (dt, None) \<Rightarrow> f dt)"

definition column_count :: "datatable \<Rightarrow> nat" where
  "column_count dt = length (dt_columns dt)"

section \<open>loadPreferences (version 1.1.0)\<close>

text \<open>
  \<^verbatim>\<open>if (preferences.pageLength) { dataTable.page.len(preferences.pageLength).draw(); }\<close>
\<close>

definition apply_pageLength :: "env \<Rightarrow> jsval \<Rightarrow> datatable \<Rightarrow> datatable \<times> js_error option" where
  "apply_pageLength e preferences dt =
     (case get_prop preferences ''pageLength'' of
        Inl err \<Rightarrow> (dt, Some err)
      | Inr v \<Rightarrow>
          if truthy v then and_then (call e (PageLen v) dt) (call e Draw) else (dt, None))"

text \<open>
  \<^verbatim>\<open>preferences.visibleColumns.forEach((visible, index) => {
      if (index < dataTable.columns().data().length) {
          dataTable.column(index).visible(visible); } })\<close>
\<close>

fun forEach_visible ::
  "env \<Rightarrow> jsval list \<Rightarrow> nat \<Rightarrow> datatable \<Rightarrow> datatable \<times> js_error option" where
  "forEach_visible e [] index dt = (dt, None)"
| "forEach_visible e (visible # rest) index dt =
     (if index < column_count dt then
        (case call e (ColumnVisible index visible) dt of
           (dt', Some err) \<Rightarrow> (dt', Some err)
         | (dt', None) \<Rightarrow> forEach_visible e rest (Suc index) dt')
      else forEach_visible e rest (Suc index) dt)"

definition apply_visibleColumns ::
  "env \<Rightarrow> jsval \<Rightarrow> datatable \<Rightarrow> datatable \<times> js_error option" where
  "apply_visibleColumns e preferences dt =
     (case get_prop preferences ''visibleColumns'' of
        Inl err \<Rightarrow> (dt, Some err)
      | Inr v \<Rightarrow>
          if truthy v \<and> isArray v then
            (case v of JArr xs \<Rightarrow> forEach_visible e xs 0 dt | _ \<Rightarrow> (dt, None))
          else (dt, None))"

text \<open>
  \<^verbatim>\<open>if (preferences.sortOrder && Array.isArray(preferences.sortOrder)) {
      dataTable.order(preferences.sortOrder).draw(); }\<close>
\<close>

definition apply_sortOrder :: "env \<Rightarrow> jsval \<Rightarrow> datatable \<Rightarrow> datatable \<times> js_error option" where
  "apply_sortOrder e preferences dt =
     (case get_prop preferences ''sortOrder'' of
        Inl err \<Rightarrow> (dt, Some err)
      | Inr v \<Rightarrow>
          if truthy v \<and> isArray v then and_then (call e (Order v) dt) (call e Draw)
          else (dt, None))"

text \<open>The body of the \<^verbatim>\<open>try\<close> block, from \<^verbatim>\<open>JSON.parse(saved)\<close> on.\<close>

definition try_body :: "env \<Rightarrow> stored_item \<Rightarrow> datatable \<Rightarrow> datatable \<times> js_error option" where
  "try_body e item dt =
     (case item of
        NoItem \<Rightarrow> (dt, None)
      | Unparseable \<Rightarrow> (dt, Some SyntaxError)
      | Parsed preferences \<Rightarrow>
          and_then (apply_pageLength e preferences dt)
            (\<lambda>dt1. and_then (apply_visibleColumns e preferences dt1)
               (apply_sortOrder e preferences)))"

text \<open>
  The whole function: nothing without an instance, nothing without a stored item; the
  \<^verbatim>\<open>catch\<close> logs the error and goes on, so the second component says what reaches
  the caller.
\<close>

definition loadPreferences :: "env \<Rightarrow> app \<Rightarrow> app \<times> js_error option" where
  "loadPreferences e s =
     (case dataTable s of
        None \<Rightarrow> (s, None)
      | Some dt \<Rightarrow>
          (case saved e of
             NoItem \<Rightarrow> (s, None)
           | item \<Rightarrow>
               (case try_body e item dt of
                  (dt', caught) \<Rightarrow> (s\<lparr>dataTable := Some dt'\<rparr>, None))))"

section \<open>displayData\<close>

text \<open>
  In order: the early return on no data, the early return without \<^verbatim>\<open>#tableHeader\<close>, the
  header row, the destruction of the instance there is, and inside \<^verbatim>\<open>try\<close> the new
  instance; version 1.1.0 then loads the preferences and attaches
  \<^verbatim>\<open>savePreferences\<close> to the page-length selector, a TypeError if that is missing.
  Registering a listener leaves the state modelled here alone.
\<close>

text \<open>\<^verbatim>\<open>if (dataTable) { dataTable.destroy(); }\<close>, outside the \<^verbatim>\<open>try\<close> block.\<close>

definition destroy_existing :: "env \<Rightarrow> app \<Rightarrow> app \<times> js_error option" where
  "destroy_existing e s =
     (case dataTable s of
        None \<Rightarrow> (s, None)
      | Some dt \<Rightarrow> (case call e Destroy dt of (dt', r) \<Rightarrow> (s\<lparr>dataTable := Some dt'\<rparr>, r)))"

text \<open>The \<^verbatim>\<open>catch\<close> of displayData: an error box replaces the container's content.\<close>

definition show_init_error :: "app \<Rightarrow> app" where
  "show_init_error s =
     (case tableContainer s of None \<Rightarrow> s | Some c \<Rightarrow> set_innerHTML InitFailure s)"

definition displayData ::
  "version \<Rightarrow> env \<Rightarrow> app \<Rightarrow> row list \<Rightarrow> string list \<Rightarrow> app \<times> js_error option" where
  "displayData v e s data headers =
     (if data = [] then (alert ''No data found in the CSV file.'' s, None)
      else if \<not> has_tableHeader s then (s, None)
      else
        (case destroy_existing e (s\<lparr>headerRow := headers\<rparr>) of
           (s1, Some err) \<Rightarrow> (s1, Some err)
         | (s1, None) \<Rightarrow>
             if init_throws e data headers then (show_init_error s1, None)
             else
               (let s2 = s1\<lparr>dataTable := Some (new_DataTable v data headers)\<rparr> in
                case v of
                  Basic \<Rightarrow> (s2, None)
                | Full \<Rightarrow>
                    (case loadPreferences e s2 of
                       (s3, Some err) \<Rightarrow> (show_init_error s3, None)
                     | (s3, None) \<Rightarrow>
                         if length_select e then (s3, None)
                         else (show_init_error s3, None)))))"

section \<open>The two loaders\<close>

text \<open>
  The \<^verbatim>\<open>complete\<close> callback that handleFileUpload gives to \<^verbatim>\<open>Papa.parse\<close>; it is the
  same in both versions of the script.
\<close>

definition handleFileUpload_complete ::
  "version \<Rightarrow> env \<Rightarrow> app \<Rightarrow> results \<Rightarrow> app \<times> js_error option" where
  "handleFileUpload_complete v e s r =
     (if length (res_errors r) > 0 then
        (alert ''Error parsing CSV file. Please check the console for details.'' s, None)
      else
        (let s1 = s\<lparr>csvData := res_data r\<rparr> in
         displayData v e s1 (csvData s1) (res_fields r)))"

text \<open>The \<^verbatim>\<open>complete\<close> callback inside loadDefaultCSV.\<close>

definition loadDefaultCSV_complete ::
  "version \<Rightarrow> env \<Rightarrow> app \<Rightarrow> results \<Rightarrow> app \<times> js_error option" where
  "loadDefaultCSV_complete v e s r =
     (if length (res_errors r) > 0 then
        (alert ''Error parsing CSV file. Please check the console for details.'' s, None)
      else
        (let s1 = s\<lparr>csvData := res_data r\<rparr>;
             s2 = set_innerHTML (TableCard (length (csvData s1))) s1
         in displayData v e s2 (csvData s2) (res_fields r)))"

text \<open>
  What the fetch of the default file gives: a response that is not ok (or no response),
  or a text, here with the results that \<^verbatim>\<open>Papa.parse\<close> computes from it.
\<close>

datatype fetched = FetchFailed | FetchedText results

text \<open>
  loadDefaultCSV: the loading indicator first, then the fetch; whatever is thrown in the
  promise chain ends in the \<^verbatim>\<open>catch\<close>, which shows an error box.
\<close>

definition loadDefaultCSV :: "version \<Rightarrow> env \<Rightarrow> app \<Rightarrow> fetched \<Rightarrow> app" where
  "loadDefaultCSV v e s f =
     (case tableContainer s of
        None \<Rightarrow> s
      | Some c \<Rightarrow>
          (let s1 = set_innerHTML Loading s in
           case f of
             FetchFailed \<Rightarrow> set_innerHTML LoadFailure s1
           | FetchedText r \<Rightarrow>
               (case loadDefaultCSV_complete v e s1 r of
                  (s2, Some err) \<Rightarrow> set_innerHTML LoadFailure s2
                | (s2, None) \<Rightarrow> s2)))"

section \<open>exportFilteredData\<close>

text \<open>
  \<^verbatim>\<open>const filteredData = dataTable.rows({ search: 'applied' }).data().toArray();
  const csv = Papa.unparse(filteredData);\<close>
  and the download of \<^verbatim>\<open>csv\<close> under a fixed name.  The two library functions are
  parameters: \<open>rows_applied\<close> gives the records that pass the table's search, in the table's
  order, and \<open>unparse\<close> is the serializer.  Without an instance the first line throws.
\<close>

definition exportFilteredData ::
  "(row list \<Rightarrow> string) \<Rightarrow> (datatable \<Rightarrow> row list) \<Rightarrow> app \<Rightarrow> js_error + string \<times> string" where
  "exportFilteredData unparse rows_applied s =
     (case dataTable s of
        None \<Rightarrow> Inl TypeError
      | Some dt \<Rightarrow> Inr (''filtered_data.csv'', unparse (rows_applied dt)))"

section \<open>Vocabulary of the statements\<close>











section \<open>Sample inputs\<close>

text \<open>Nothing stored, a library that never throws, the page-length selector in place.\<close>

definition quiet_env :: env where
  "quiet_env =
     \<lparr>saved = NoItem, throws = (\<lambda>dt c. False), init_throws = (\<lambda>d h. False),
      length_select = True\<rparr>"

text \<open>The page after \<^verbatim>\<open>Name,Qty\<close> with the rows Widget, 5 and Gizmo, empty was loaded.\<close>

definition widget_rows :: "row list" where
  "widget_rows =
     [[(''Name'', JStr ''Widget''), (''Qty'', JNum 5)],
      [(''Name'', JStr ''Gizmo''), (''Qty'', JNull)]]"

definition widget_page :: app where
  "widget_page =
     \<lparr>csvData = widget_rows,
      dataTable = Some (new_DataTable Full widget_rows [''Name'', ''Qty'']),
      tableContainer = Some Original,
      headerRow = [''Name'', ''Qty''],
      alerts = []\<rparr>"



definition empty_parse :: results where
  "empty_parse = \<lparr>res_errors = [], res_data = [], res_fields = [''Item'', ''Price'']\<rparr>"




section \<open>Field lemmas\<close>

lemma alert_fields [simp]:
  "csvData (alert m s) = csvData s"
  "dataTable (alert m s) = dataTable s"
  "tableContainer (alert m s) = tableContainer s"
  "headerRow (alert m s) = headerRow s"
  by (simp_all add: alert_def)

lemma set_innerHTML_fields [simp]:
  "csvData (set_innerHTML c s) = csvData s"
  "dataTable (set_innerHTML c s) = dataTable s"
  "tableContainer (set_innerHTML c s) = Some c"
  by (simp_all add: set_innerHTML_def)

lemma displayData_no_data:
  "displayData v e s [] headers = (alert ''No data found in the CSV file.'' s, None)"
  by (simp add: displayData_def)

section \<open>A parse that reports errors\<close>





section \<open>A parse that finds no record\<close>

text \<open>
  C10.  When the parse succeeds with no record, the stored records are replaced by the
  empty sequence, and displayData returns at its first test: the table instance is the
  one there was (if any), with the rows it had and no call made on it, and the container
  and the header row are untouched on an upload.  The same holds for the stored records
  and the instance on the default load, when the page has its container.
\<close>

theorem empty_parse_leaves_table:
  assumes "res_errors r = []" and "res_data r = []"
  shows "csvData (fst (handleFileUpload_complete v e s r)) = []
       \<and> dataTable (fst (handleFileUpload_complete v e s r)) = dataTable s
       \<and> tableContainer (fst (handleFileUpload_complete v e s r)) = tableContainer s
       \<and> headerRow (fst (handleFileUpload_complete v e s r)) = headerRow s
       \<and> snd (handleFileUpload_complete v e s r) = None
       \<and> dataTable (fst (displayData v e s (res_data r) (res_fields r))) = dataTable s
       \<and> csvData (loadDefaultCSV v e s (FetchedText r))
           = (if tableContainer s = None then csvData s else [])
       \<and> dataTable (loadDefaultCSV v e s (FetchedText r)) = dataTable s"
  using assms
  by (simp add: handleFileUpload_complete_def loadDefaultCSV_def loadDefaultCSV_complete_def
      displayData_no_data Let_def split: option.splits)

theorem empty_parse_leaves_table_witness:
  "res_errors empty_parse = [] \<and> res_data empty_parse = []
   \<and> csvData (fst (handleFileUpload_complete Full quiet_env widget_page empty_parse)) = []
   \<and> dataTable (fst (handleFileUpload_complete Full quiet_env widget_page empty_parse))
       = Some (new_DataTable Full widget_rows [''Name'', ''Qty''])
   \<and> map_option dt_data
        (dataTable (fst (handleFileUpload_complete Full quiet_env widget_page empty_parse)))
       = Some widget_rows"
proof -
  have h1: "res_errors empty_parse = []" and h2: "res_data empty_parse = []"
    by (simp_all add: empty_parse_def)
  show ?thesis
    using h1 h2 empty_parse_leaves_table [OF h1 h2, of Full quiet_env widget_page]
    by (simp add: widget_page_def new_DataTable_def)
qed

section \<open>Stored preferences\<close>































section \<open>Cells by position\<close>

lemma map_index_only:
  "length xs = length ys \<Longrightarrow> map (\<lambda>p. f (fst p)) (zip xs ys) = map f xs"
proof -
  assume len: "length xs = length ys"
  have "map (\<lambda>p. f (fst p)) (zip xs ys) = map f (map fst (zip xs ys))"
    by simp
  then show ?thesis using len by simp
qed

lemma columns_of_cells:
  "map (\<lambda>c. col_data c r) (columns_of headers) = map (at (object_values r)) [0..<length headers]"
  by (simp add: columns_of_def enumerate_eq_zip o_def case_prod_beta map_index_only)

lemma year_names: "is_array_index ''2020''" "is_array_index ''2019''" "\<not> is_array_index ''Name''"
  by (simp_all add: is_array_index_def is_digit_def decimal_def digit_value_def)

lemma year_values: "decimal ''2020'' = 2020" "decimal ''2019'' = 2019"
  by (simp_all add: decimal_def digit_value_def)

lemma letter_names: "\<not> is_array_index ''a''" "\<not> is_array_index ''b''"
  by (simp_all add: is_array_index_def is_digit_def)

lemma year_record_values:
  "object_values [(''Name'', JStr ''Widget''), (''2020'', JNum 5), (''2019'', JNum 7)]
     = [JNum 7, JNum 5, JStr ''Widget'']"
  by (simp add: object_values_def year_names year_values)

lemma letter_record_values: "object_values [(''a'', JNum 3), (''b'', JNum 2)] = [JNum 3, JNum 2]"
  by (simp add: object_values_def letter_names)

text \<open>
  C9, where it fails.  Under the header \<^verbatim>\<open>Name,2020,2019\<close> the record of the line
  \<^verbatim>\<open>Widget,5,7\<close> has the properties Name, 2020 and 2019; \<^verbatim>\<open>Object.values\<close> lists the
  two years first, the smaller first, so the column titled Name reads 7, the column
  titled 2020 reads 5 and the column titled 2019 reads Widget.  Under the header
  \<^verbatim>\<open>a,b,a\<close> a record has one property \<^verbatim>\<open>a\<close> and one property \<^verbatim>\<open>b\<close>: with the
  values 3 and 2 the three columns read 3, 2 and \<^verbatim>\<open>undefined\<close>.  In neither table does
  every column read the cell of its own position.
\<close>

theorem cells_follow_property_order:
  "map (\<lambda>c. col_data c [(''Name'', JStr ''Widget''), (''2020'', JNum 5), (''2019'', JNum 7)])
       (dt_columns (new_DataTable v data [''Name'', ''2020'', ''2019'']))
     = [JNum 7, JNum 5, JStr ''Widget'']
   \<and> map (\<lambda>c. col_data c [(''a'', JNum 3), (''b'', JNum 2)])
       (dt_columns (new_DataTable v data [''a'', ''b'', ''a'']))
     = [JNum 3, JNum 2, JUndefined]"
proof -
  have three: "[0..<length [x, y, z]] = [0, 1, 2]" for x y z :: string
    by (simp add: upt_rec)
  show ?thesis
    by (simp add: new_DataTable_def columns_of_cells three year_record_values
        letter_record_values at_def)
qed

section \<open>Export with no record\<close>

lemma export_no_rows:
  "exportFilteredData unparse (\<lambda>dt. []) (s\<lparr>dataTable := Some dt\<rparr>)
     = Inr (''filtered_data.csv'', unparse [])"
  by (simp add: exportFilteredData_def)

text \<open>
  C1, where it fails.  When no record passes the search, the exported text is what the
  serializer makes of the empty sequence, the same for every header the table may have:
  whatever the serializer and the parser are, parsing the export does not give back the
  header of every table.
\<close>

theorem no_round_trip_without_rows:
  "\<not> (\<forall>headers. \<exists>text.
          exportFilteredData unparse (\<lambda>dt. [])
              (s\<lparr>dataTable := Some (new_DataTable v data headers)\<rparr>)
            = Inr (''filtered_data.csv'', text)
          \<and> fst (parse text) = headers)"
proof
  assume all: "\<forall>headers. \<exists>text.
          exportFilteredData unparse (\<lambda>dt. [])
              (s\<lparr>dataTable := Some (new_DataTable v data headers)\<rparr>)
            = Inr (''filtered_data.csv'', text)
          \<and> fst (parse text) = headers"
  from all have "fst (parse (unparse [])) = [''Name'', ''Qty'']"
    using export_no_rows [where dt = "new_DataTable v data [''Name'', ''Qty'']"]
    by (metis Inr_inject prod.inject)
  moreover from all have "fst (parse (unparse [])) = [''Item'']"
    using export_no_rows [where dt = "new_DataTable v data [''Item'']"]
    by (metis Inr_inject prod.inject)
  ultimately show False by simp
qed

end
